theory Spec2Isabelle
  imports Main "HOL-Library.Word" "HOL-Library.Sublist"
begin

section \<open>JavaScript strings\<close>

text \<open>
  A JavaScript string is a sequence of 16-bit code units. \<open>str\<close> embeds an ASCII
  literal of the source. \<open>isWhiteSpace\<close> is the set that both \<^verbatim>\<open>\s\<close> of a RegExp and
  \<^verbatim>\<open>String.prototype.trim\<close> use (WhiteSpace and LineTerminator of ECMAScript);
  \<open>isLineTerminator\<close> is what \<^verbatim>\<open>.\<close> refuses. \<open>canonicalize\<close> is the case folding of
  the \<^verbatim>\<open>i\<close> flag on ASCII units; a unit from 0x80 on never folds onto an ASCII unit,
  so comparing against an ASCII pattern character the identity is exact there.
\<close>

type_synonym code_unit = "16 word"
type_synonym js_string = "code_unit list"

definition str :: "string \<Rightarrow> js_string" where
  "str s = map (\<lambda>c. of_nat (of_char c)) s"

definition isLineTerminator :: "code_unit \<Rightarrow> bool" where
  "isLineTerminator c = (c = 0xA \<or> c = 0xD \<or> c = 0x2028 \<or> c = 0x2029)"

definition isWhiteSpace :: "code_unit \<Rightarrow> bool" where
  "isWhiteSpace c =
     (c = 0x9 \<or> c = 0xB \<or> c = 0xC \<or> c = 0x20 \<or> c = 0xA0 \<or> c = 0x1680
      \<or> (0x2000 \<le> c \<and> c \<le> 0x200A) \<or> c = 0x202F \<or> c = 0x205F \<or> c = 0x3000
      \<or> c = 0xFEFF \<or> isLineTerminator c)"

definition canonicalize :: "code_unit \<Rightarrow> code_unit" where
  "canonicalize c = (if 0x61 \<le> c \<and> c \<le> 0x7A then c - 0x20 else c)"

definition trim :: "js_string \<Rightarrow> js_string" where
  "trim s = rev (dropWhile isWhiteSpace (rev (dropWhile isWhiteSpace s)))"

text \<open>Interpolation \<^verbatim>\<open>${x}\<close> in a template literal: an absent value prints as "undefined".\<close>

fun toString :: "js_string option \<Rightarrow> js_string" where
  "toString None = str ''undefined''"
| "toString (Some s) = s"

section \<open>The self-recognition RegExp\<close>

text \<open>
  \<^verbatim>\<open>new RegExp(`^(@?${this.self.name}\\s)`, 'i')\<close> pastes the bot's name into the pattern
  unescaped. The model covers the names whose units are ASCII and are no syntax character
  of the pattern language other than the dot: each such unit is one atom, a literal or,
  for the dot, the wildcard. For any other name \<open>selfRecognizeRegex\<close> is \<open>None\<close>: the
  pattern is outside the modelled fragment and nothing is stated about it. A \<open>regexp\<close>
  is the atom sequence between \<^verbatim>\<open>^(@?\<close> and \<^verbatim>\<open>)\<close>.
\<close>

datatype atom = Lit code_unit | AnyChar | Space

type_synonym regexp = "atom list"

definition isSyntaxCharacter :: "code_unit \<Rightarrow> bool" where
  "isSyntaxCharacter c =
     (c = 0x5E \<or> c = 0x24 \<or> c = 0x5C \<or> c = 0x2E \<or> c = 0x2A \<or> c = 0x2B \<or> c = 0x3F
      \<or> c = 0x28 \<or> c = 0x29 \<or> c = 0x5B \<or> c = 0x5D \<or> c = 0x7B \<or> c = 0x7D \<or> c = 0x7C)"

definition pattern_atom :: "code_unit \<Rightarrow> atom option" where
  "pattern_atom c =
     (if c = 0x2E then Some AnyChar
      else if isSyntaxCharacter c \<or> 0x80 \<le> c then None
      else Some (Lit c))"

fun pattern_atoms :: "js_string \<Rightarrow> atom list option" where
  "pattern_atoms [] = Some []"
| "pattern_atoms (c # cs) =
     (case pattern_atom c of
        None \<Rightarrow> None
      | Some a \<Rightarrow> (case pattern_atoms cs of None \<Rightarrow> None | Some as \<Rightarrow> Some (a # as)))"

definition selfRecognizeRegex :: "js_string \<Rightarrow> regexp option" where
  "selfRecognizeRegex name =
     (case pattern_atoms name of None \<Rightarrow> None | Some as \<Rightarrow> Some (as @ [Space]))"

fun atom_matches :: "atom \<Rightarrow> code_unit \<Rightarrow> bool" where
  "atom_matches (Lit c) u = (canonicalize u = canonicalize c)"
| "atom_matches AnyChar u = (\<not> isLineTerminator u)"
| "atom_matches Space u = isWhiteSpace u"

text \<open>\<open>match_atoms\<close> returns what is left of the input after the atoms matched.\<close>

fun match_atoms :: "atom list \<Rightarrow> js_string \<Rightarrow> js_string option" where
  "match_atoms [] t = Some t"
| "match_atoms (a # as) [] = None"
| "match_atoms (a # as) (u # us) = (if atom_matches a u then match_atoms as us else None)"

text \<open>
  The pattern is anchored and has no \<^verbatim>\<open>g\<close> flag, so it matches at index 0 or not at
  all. \<^verbatim>\<open>@?\<close> is greedy: the matcher first takes a leading "@" and backtracks to taking
  none when the rest fails. \<open>regexp_exec\<close> returns the input after the match.
\<close>

definition regexp_exec :: "regexp \<Rightarrow> js_string \<Rightarrow> js_string option" where
  "regexp_exec r t =
     (case t of
        [] \<Rightarrow> match_atoms r t
      | u # us \<Rightarrow>
          (if u = 0x40
           then (case match_atoms r us of Some rest \<Rightarrow> Some rest | None \<Rightarrow> match_atoms r t)
           else match_atoms r t))"

text \<open>\<^verbatim>\<open>regex.test(text)\<close> converts an absent text to the string "undefined".\<close>

definition regexp_test :: "regexp \<Rightarrow> js_string option \<Rightarrow> bool" where
  "regexp_test r text = (case regexp_exec r (toString text) of None \<Rightarrow> False | Some rest \<Rightarrow> True)"

text \<open>\<^verbatim>\<open>text.replace(regex, '')\<close>: the first match, here a prefix, is removed.\<close>

definition replace :: "js_string \<Rightarrow> regexp \<Rightarrow> js_string" where
  "replace t r = (case regexp_exec r t of None \<Rightarrow> t | Some rest \<Rightarrow> rest)"

section \<open>Data\<close>

record self_rec =
  self_id :: js_string
  self_name :: js_string
  self_botId :: "js_string option"

record team =
  team_name :: js_string

record profile =
  bot_id :: "js_string option"

record user =
  user_id :: js_string
  user_name :: js_string
  user_profile :: "profile option"

record service =
  service_id :: js_string
  service_name :: js_string

record channel =
  channel_name :: js_string

record identity =
  identity_self :: self_rec
  identity_team :: team
  identity_users :: "user list"
  identity_groups :: "channel list"

record config =
  config_defaultChannel :: js_string
  config_autoReconnect :: bool

text \<open>The message handed over by the adapter; an absent field is \<open>None\<close>.\<close>

record meta_msg =
  msg_text :: "js_string option"
  msg_user :: "user option"
  msg_bot :: "service option"
  msg_channel :: "channel option"
  msg_subtype :: "js_string option"
  msg_topic :: "js_string option"
  isDM :: bool

datatype js_error = TypeError | Raised js_string

text \<open>
  What a call does to the outside: a line given to \<^verbatim>\<open>debug\<close>, the construction of a
  plugin, a call of a plugin's \<^verbatim>\<open>init\<close>, a call of a plugin's \<^verbatim>\<open>processMessage\<close>
  with the message it received, a call of the client's \<^verbatim>\<open>send\<close> with its text and
  channel, a call of \<^verbatim>\<open>fs.readdir\<close> on the plugin directory.
\<close>

datatype effect =
    Debug js_string
  | New js_string
  | Init js_string
  | ProcessMessage js_string meta_msg
  | Send js_string "channel option"
  | Readdir

text \<open>
  A plugin class is taken by what the bot can observe of it: its name, whether its
  constructor throws, whether it has an \<^verbatim>\<open>init\<close> method and whether that throws, and
  whether \<^verbatim>\<open>processMessage\<close> throws on a given message. What a plugin does on its own
  (replying through the client, its private state) is not part of the bot's code, and a
  plugin that rewrites the message or the bot it was given is outside the model.
  \<open>plugin_new\<close> is the exception of the constructor, \<open>None\<close> when it returns.
  \<open>plugin_init\<close> is \<open>None\<close> for a class without \<^verbatim>\<open>init\<close>, \<open>Some None\<close> when \<^verbatim>\<open>init\<close>
  returns and \<open>Some (Some e)\<close> when it throws \<open>e\<close>. \<open>plugin_processMessage\<close> gives the
  exception of the call on a message, \<open>None\<close> when it returns.
\<close>

record plugin =
  plugin_name :: js_string
  plugin_new :: "js_error option"
  plugin_init :: "js_error option option"
  plugin_processMessage :: "meta_msg \<Rightarrow> js_error option"

record lychii_bot =
  self :: "self_rec option"
  team :: "team option"
  users :: "user list option"
  defaultChannel :: "channel option"
  plugins :: "plugin list"

text \<open>
  The result of a call: the object it mutated as the call left it, the effects in
  order, and the exception it threw, if any.
\<close>

record 'a outcome =
  after :: 'a
  did :: "effect list"
  thrown :: "js_error option"

definition constructor :: lychii_bot where
  "constructor = \<lparr>self = None, team = None, users = None, defaultChannel = None, plugins = []\<rparr>"

section \<open>Plugin registration\<close>

definition registerPlugin :: "lychii_bot \<Rightarrow> plugin \<Rightarrow> lychii_bot outcome" where
  "registerPlugin b p =
     (let announce = Debug (str ''register plugin: '' @ plugin_name p) in
      case plugin_new p of
        Some e \<Rightarrow> \<lparr>after = b, did = [announce, New (plugin_name p)], thrown = Some e\<rparr>
      | None \<Rightarrow>
          (let b' = b\<lparr>plugins := plugins b @ [p]\<rparr> in
           case plugin_init p of
             None \<Rightarrow> \<lparr>after = b', did = [announce, New (plugin_name p)], thrown = None\<rparr>
           | Some r \<Rightarrow>
               \<lparr>after = b', did = [announce, New (plugin_name p), Init (plugin_name p)],
                thrown = r\<rparr>))"

text \<open>\<^verbatim>\<open>plugins.map((plugin) => { this.registerPlugin(plugin) })\<close> of \<^verbatim>\<open>loadPlugins\<close>.\<close>

fun register_each :: "lychii_bot \<Rightarrow> plugin list \<Rightarrow> lychii_bot outcome" where
  "register_each b [] = \<lparr>after = b, did = [], thrown = None\<rparr>"
| "register_each b (p # ps) =
     (let o1 = registerPlugin b p in
      case thrown o1 of
        Some e \<Rightarrow> o1
      | None \<Rightarrow>
          (let o2 = register_each (after o1) ps in
           \<lparr>after = after o2, did = did o1 @ did o2, thrown = thrown o2\<rparr>))"

text \<open>
  An entry of the plugin directory: whether it is a directory, and what requiring it
  gives (\<open>None\<close> for a falsy export).
\<close>

record dir_entry =
  isDirectory :: bool
  required :: "plugin option"

text \<open>
  The callback given to \<^verbatim>\<open>fs.readdir\<close>: it receives the error or the entries. The
  callback runs in a later turn of the event loop, after \<open>loadPlugins\<close> has returned, on
  the bot as it is then; its outcome is its own, not that of \<open>loadPlugins\<close>.
\<close>

fun register_files :: "lychii_bot \<Rightarrow> dir_entry list \<Rightarrow> lychii_bot outcome" where
  "register_files b [] = \<lparr>after = b, did = [], thrown = None\<rparr>"
| "register_files b (f # fs) =
     (if isDirectory f then
        (case required f of
           None \<Rightarrow> register_files b fs
         | Some p \<Rightarrow>
             (let o1 = registerPlugin b p in
              case thrown o1 of
                Some e \<Rightarrow> o1
              | None \<Rightarrow>
                  (let o2 = register_files (after o1) fs in
                   \<lparr>after = after o2, did = did o1 @ did o2, thrown = thrown o2\<rparr>)))
      else register_files b fs)"

definition readdir_callback :: "lychii_bot \<Rightarrow> js_error option \<Rightarrow> dir_entry list \<Rightarrow> lychii_bot outcome" where
  "readdir_callback b err files =
     (case err of
        Some e \<Rightarrow> \<lparr>after = b, did = [], thrown = Some e\<rparr>
      | None \<Rightarrow> register_files b files)"

text \<open>
  \<open>loadPlugins\<close> takes what \<^verbatim>\<open>require('./plugins')\<close> exports. An array, empty or not,
  is truthy and is registered at once. With a falsy export the call only starts
  \<^verbatim>\<open>fs.readdir\<close>, which is asynchronous: it returns with the registry as it was and
  throws nothing.
\<close>

definition loadPlugins :: "lychii_bot \<Rightarrow> plugin list option \<Rightarrow> lychii_bot outcome" where
  "loadPlugins b exported =
     (case exported of
        Some ps \<Rightarrow> register_each b ps
      | None \<Rightarrow> \<lparr>after = b, did = [Readdir], thrown = None\<rparr>)"

section \<open>Authentication\<close>

text \<open>
  The loop over the user directory: every entry with the bot's own id overwrites
  \<^verbatim>\<open>self.botId\<close> and reads \<^verbatim>\<open>profile.bot_id\<close> for it, which throws without a profile.
  The result is the bot id as the loop left it, and the exception if it threw.
\<close>

fun get_bot_id ::
  "js_string \<Rightarrow> user list \<Rightarrow> js_string option \<Rightarrow> js_string option \<times> js_error option" where
  "get_bot_id sid [] acc = (acc, None)"
| "get_bot_id sid (u # us) acc =
     (if user_id u = sid then
        (case user_profile u of
           None \<Rightarrow> (acc, Some TypeError)
         | Some pr \<Rightarrow> get_bot_id sid us (bot_id pr))
      else get_bot_id sid us acc)"

text \<open>The loop over the groups: the last group with the configured name wins.\<close>

fun find_default :: "js_string \<Rightarrow> channel list \<Rightarrow> channel option \<Rightarrow> channel option" where
  "find_default n [] acc = acc"
| "find_default n (g # gs) acc =
     (if channel_name g = n then find_default n gs (Some g) else find_default n gs acc)"

definition onAuthenticated :: "config \<Rightarrow> lychii_bot \<Rightarrow> identity \<Rightarrow> lychii_bot outcome" where
  "onAuthenticated cfg b idn =
     (let s = identity_self idn in
      case get_bot_id (self_id s) (identity_users idn) (self_botId s) of
        (bid, x) \<Rightarrow>
          (let b1 = b\<lparr>self := Some (s\<lparr>self_botId := bid\<rparr>), team := Some (identity_team idn),
                      users := Some (identity_users idn)\<rparr>
           in case x of
                Some e \<Rightarrow> \<lparr>after = b1, did = [], thrown = Some e\<rparr>
              | None \<Rightarrow>
                  (let b2 = b1\<lparr>defaultChannel :=
                                find_default (config_defaultChannel cfg) (identity_groups idn)
                                  (defaultChannel b)\<rparr>;
                       login = Debug (str ''login to team '' @ team_name (identity_team idn)
                                      @ str '' as '' @ self_name s)
                   in case defaultChannel b2 of
                        None \<Rightarrow> \<lparr>after = b2, did = [login], thrown = Some TypeError\<rparr>
                      | Some c \<Rightarrow>
                          \<lparr>after = b2,
                           did = [login, Debug (str ''default channel: '' @ channel_name c)],
                           thrown = None\<rparr>)))"

text \<open>
  \<open>onConnected\<close> takes the user and the team the client's data store returns for the
  active ids. It logs them and then greets on the default channel, whatever that is:
  \<^verbatim>\<open>this.client.send\<close> is handed the channel or null.
\<close>

definition onConnected :: "lychii_bot \<Rightarrow> user option \<Rightarrow> team option \<Rightarrow> lychii_bot outcome" where
  "onConnected b active_user active_team =
     (case active_team of
        None \<Rightarrow> \<lparr>after = b, did = [], thrown = Some TypeError\<rparr>
      | Some t \<Rightarrow>
          (case active_user of
             None \<Rightarrow> \<lparr>after = b, did = [], thrown = Some TypeError\<rparr>
           | Some u \<Rightarrow>
               (let connected = Debug (str ''connected to team '' @ team_name t @ str '' as ''
                                       @ user_name u)
                in case self b of
                     None \<Rightarrow> \<lparr>after = b, did = [connected], thrown = Some TypeError\<rparr>
                   | Some s \<Rightarrow>
                       \<lparr>after = b,
                        did = [connected,
                               Send (str ''Hello! I'' @ [0x27] @ str ''m '' @ self_name s)
                                    (defaultChannel b)],
                        thrown = None\<rparr>)))"

section \<open>Incoming messages\<close>

text \<open>
  \<^verbatim>\<open>user && user.id === this.self.id\<close> reads \<^verbatim>\<open>this.self\<close> only when the message has a
  user, and likewise for the bot; with no identity yet that read throws.
\<close>

definition isAcceptable :: "lychii_bot \<Rightarrow> meta_msg \<Rightarrow> regexp \<Rightarrow> js_error + bool" where
  "isAcceptable b m r =
     (let mention = (if isDM m then Inr True else Inr (regexp_test r (msg_text m)));
          from_bot =
            (case msg_bot m of
               None \<Rightarrow> mention
             | Some sv \<Rightarrow>
                 (case self b of
                    None \<Rightarrow> Inl TypeError
                  | Some s \<Rightarrow> if Some (service_id sv) = self_botId s then Inr False else mention))
      in case msg_user m of
           None \<Rightarrow> from_bot
         | Some u \<Rightarrow>
             (case self b of
                None \<Rightarrow> Inl TypeError
              | Some s \<Rightarrow> if user_id u = self_id s then Inr False else from_bot))"

definition trimMessage :: "meta_msg \<Rightarrow> regexp \<Rightarrow> js_error + meta_msg" where
  "trimMessage m r =
     (case msg_text m of
        None \<Rightarrow> Inl TypeError
      | Some t \<Rightarrow> Inr (m\<lparr>msg_text := Some (replace (trim t) r)\<rparr>))"

text \<open>\<^verbatim>\<open>this.plugins.map((plugin) => { plugin.processMessage(metaMsg) })\<close>.\<close>

fun plugins_map :: "plugin list \<Rightarrow> meta_msg \<Rightarrow> effect list \<times> js_error option" where
  "plugins_map [] m = ([], None)"
| "plugins_map (p # ps) m =
     (case plugin_processMessage p m of
        Some e \<Rightarrow> ([ProcessMessage (plugin_name p) m], Some e)
      | None \<Rightarrow>
          (case plugins_map ps m of
             (es, x) \<Rightarrow> (ProcessMessage (plugin_name p) m # es, x)))"

definition processMessage :: "lychii_bot \<Rightarrow> meta_msg \<Rightarrow> meta_msg outcome" where
  "processMessage b m =
     (case plugins_map (plugins b) m of
        (es, x) \<Rightarrow>
          \<lparr>after = m, did = Debug (str ''processing: '' @ toString (msg_text m)) # es,
           thrown = x\<rparr>)"

text \<open>\<^verbatim>\<open>user = user || bot || {}\<close>, then \<^verbatim>\<open>user.name\<close>.\<close>

definition sender_name :: "meta_msg \<Rightarrow> js_string option" where
  "sender_name m =
     (case msg_user m of
        Some u \<Rightarrow> Some (user_name u)
      | None \<Rightarrow> (case msg_bot m of Some sv \<Rightarrow> Some (service_name sv) | None \<Rightarrow> None))"

text \<open>\<^verbatim>\<open>subtype = subtype || 'message'\<close>: the empty string is falsy too.\<close>

definition effective_subtype :: "meta_msg \<Rightarrow> js_string" where
  "effective_subtype m =
     (case msg_subtype m of
        None \<Rightarrow> str ''message''
      | Some s \<Rightarrow> if s = [] then str ''message'' else s)"

text \<open>
  The \<^verbatim>\<open>switch\<close> of \<^verbatim>\<open>onIncomingMessage\<close>. Every branch builds its log line first, and
  that reads \<^verbatim>\<open>channel.name\<close>: a message without a channel throws there.
\<close>

definition switch_subtype :: "lychii_bot \<Rightarrow> meta_msg \<Rightarrow> meta_msg outcome" where
  "switch_subtype b m =
     (let st = effective_subtype m; who = toString (sender_name m) in
      case msg_channel m of
        None \<Rightarrow> \<lparr>after = m, did = [], thrown = Some TypeError\<rparr>
      | Some c \<Rightarrow>
          if st = str ''channel_join'' \<or> st = str ''group_join'' then
            \<lparr>after = m, did = [Debug (who @ str '' has joined '' @ channel_name c)],
             thrown = None\<rparr>
          else if st = str ''channel_leave'' \<or> st = str ''group_leave'' then
            \<lparr>after = m, did = [Debug (who @ str '' has left '' @ channel_name c)],
             thrown = None\<rparr>
          else if st = str ''channel_topic'' \<or> st = str ''group_topic'' then
            \<lparr>after = m,
             did = [Debug (who @ str '' set the topic in '' @ channel_name c @ str '' to ''
                           @ toString (msg_topic m))],
             thrown = None\<rparr>
          else
            (let o1 = processMessage b m in
             \<lparr>after = after o1,
              did = Debug (str ''received from '' @ who @ str '' in channel '' @ channel_name c
                           @ str '': '' @ toString (msg_text m)) # did o1,
              thrown = thrown o1\<rparr>))"

text \<open>
  \<open>onIncomingMessage\<close> is \<open>None\<close> exactly when the bot's name is outside the modelled
  pattern fragment.
\<close>

definition onIncomingMessage :: "lychii_bot \<Rightarrow> meta_msg \<Rightarrow> meta_msg outcome option" where
  "onIncomingMessage b m =
     (case self b of
        None \<Rightarrow> Some \<lparr>after = m, did = [], thrown = Some TypeError\<rparr>
      | Some s \<Rightarrow>
          (case selfRecognizeRegex (self_name s) of
             None \<Rightarrow> None
           | Some r \<Rightarrow>
               (case isAcceptable b m r of
                  Inl e \<Rightarrow> Some \<lparr>after = m, did = [], thrown = Some e\<rparr>
                | Inr ok \<Rightarrow>
                    if ok then
                      (case trimMessage m r of
                         Inl e \<Rightarrow> Some \<lparr>after = m, did = [], thrown = Some e\<rparr>
                       | Inr m' \<Rightarrow> Some (switch_subtype b m'))
                    else Some \<lparr>after = m, did = [], thrown = None\<rparr>)))"

section \<open>Notions used in the statements\<close>

text \<open>The plugin calls among the effects, in order: the plugin's name and the message it got.\<close>

fun invoked :: "effect list \<Rightarrow> (js_string \<times> meta_msg) list" where
  "invoked [] = []"
| "invoked (ProcessMessage n m # es) = (n, m) # invoked es"
| "invoked (e # es) = invoked es"

definition calls :: "plugin list \<Rightarrow> meta_msg \<Rightarrow> effect list" where
  "calls ps m = map (\<lambda>q. ProcessMessage (plugin_name q) m) ps"

definition returns_on :: "meta_msg \<Rightarrow> plugin \<Rightarrow> bool" where
  "returns_on m q = (plugin_processMessage q m = None)"

definition init_returns :: "plugin \<Rightarrow> bool" where
  "init_returns q = (case plugin_init q of None \<Rightarrow> True | Some x \<Rightarrow> x = None)"

definition registers :: "plugin \<Rightarrow> bool" where
  "registers q = (plugin_new q = None \<and> init_returns q)"

text \<open>The effects of registering one plugin whose constructor returns.\<close>

definition registration :: "plugin \<Rightarrow> effect list" where
  "registration q =
     [Debug (str ''register plugin: '' @ plugin_name q), New (plugin_name q)]
     @ (case plugin_init q of None \<Rightarrow> [] | Some x \<Rightarrow> [Init (plugin_name q)])"

text \<open>A message sent by the bot itself: the two tests at the head of \<open>isAcceptable\<close>.\<close>

definition from_self :: "self_rec \<Rightarrow> meta_msg \<Rightarrow> bool" where
  "from_self s m =
     ((case msg_user m of None \<Rightarrow> False | Some u \<Rightarrow> user_id u = self_id s)
      \<or> (case msg_bot m of None \<Rightarrow> False | Some sv \<Rightarrow> Some (service_id sv) = self_botId s))"

text \<open>The subtypes whose \<^verbatim>\<open>case\<close> labels only log.\<close>

definition log_only :: "js_string \<Rightarrow> bool" where
  "log_only st =
     (st = str ''channel_join'' \<or> st = str ''group_join'' \<or> st = str ''channel_leave''
      \<or> st = str ''group_leave'' \<or> st = str ''channel_topic'' \<or> st = str ''group_topic'')"

text \<open>A text with no white space at either end.\<close>

definition trimmed :: "js_string \<Rightarrow> bool" where
  "trimmed t = (case t of [] \<Rightarrow> True | c # cs \<Rightarrow> \<not> isWhiteSpace c \<and> \<not> isWhiteSpace (last t))"

text \<open>
  The mention prefix as the specification words it, not taken from the code: the text
  begins, case-insensitively and with an optional leading "@", with the bot's display
  name followed by white space.
\<close>

definition begins_with_name :: "js_string \<Rightarrow> js_string \<Rightarrow> bool" where
  "begins_with_name name t =
     (length name < length t \<and> map canonicalize (take (length name) t) = map canonicalize name
      \<and> isWhiteSpace (t ! length name))"

definition spec_mention_prefix :: "js_string \<Rightarrow> js_string \<Rightarrow> bool" where
  "spec_mention_prefix name t =
     (begins_with_name name t
      \<or> (case t of [] \<Rightarrow> False | u # us \<Rightarrow> u = 0x40 \<and> begins_with_name name us))"

text \<open>A name of ASCII units none of which is a syntax character, the dot included.\<close>

definition plain_name :: "js_string \<Rightarrow> bool" where
  "plain_name name = list_all (\<lambda>c. \<not> isSyntaxCharacter c \<and> c < 0x80) name"

section \<open>Example inputs\<close>

definition lychii :: self_rec where
  "lychii = \<lparr>self_id = str ''U1'', self_name = str ''lychii'', self_botId = Some (str ''B1'')\<rparr>"

definition lychii_regex :: regexp where
  "lychii_regex = map Lit (str ''lychii'') @ [Space]"

definition my_bot :: self_rec where
  "my_bot = \<lparr>self_id = str ''U1'', self_name = str ''my.bot'', self_botId = Some (str ''B1'')\<rparr>"

definition my_bot_regex :: regexp where
  "my_bot_regex = map Lit (str ''my'') @ [AnyChar] @ map Lit (str ''bot'') @ [Space]"

definition general :: channel where
  "general = \<lparr>channel_name = str ''general''\<rparr>"

definition lychii_user :: user where
  "lychii_user = \<lparr>user_id = str ''U1'', user_name = str ''lychii'',
                  user_profile = Some \<lparr>bot_id = Some (str ''B1'')\<rparr>\<rparr>"

definition alice :: user where
  "alice = \<lparr>user_id = str ''U2'', user_name = str ''alice'', user_profile = None\<rparr>"

definition running :: "self_rec \<Rightarrow> plugin list \<Rightarrow> lychii_bot" where
  "running s ps = \<lparr>self = Some s, team = Some \<lparr>team_name = str ''lab''\<rparr>,
                   users = Some [lychii_user, alice], defaultChannel = Some general,
                   plugins = ps\<rparr>"

definition said :: "user \<Rightarrow> js_string option \<Rightarrow> bool \<Rightarrow> js_string option \<Rightarrow> meta_msg" where
  "said u t dm st = \<lparr>msg_text = t, msg_user = Some u, msg_bot = None, msg_channel = Some general,
                     msg_subtype = st, msg_topic = None, isDM = dm\<rparr>"

definition quiet :: "js_string \<Rightarrow> plugin" where
  "quiet n = \<lparr>plugin_name = n, plugin_new = None, plugin_init = Some None,
              plugin_processMessage = (\<lambda>m. None)\<rparr>"

definition failing :: "js_string \<Rightarrow> plugin" where
  "failing n = \<lparr>plugin_name = n, plugin_new = None, plugin_init = Some None,
                plugin_processMessage = (\<lambda>m. Some (Raised (str ''boom'')))\<rparr>"

definition broken_init :: "js_string \<Rightarrow> plugin" where
  "broken_init n = \<lparr>plugin_name = n, plugin_new = None,
                    plugin_init = Some (Some (Raised (str ''boom''))),
                    plugin_processMessage = (\<lambda>m. None)\<rparr>"

definition login_payload :: "channel list \<Rightarrow> identity" where
  "login_payload gs =
     \<lparr>identity_self = \<lparr>self_id = str ''U1'', self_name = str ''lychii'', self_botId = None\<rparr>,
      identity_team = \<lparr>team_name = str ''lab''\<rparr>,
      identity_users = [lychii_user, alice],
      identity_groups = gs\<rparr>"

definition greets_general :: config where
  "greets_general = \<lparr>config_defaultChannel = str ''general'', config_autoReconnect = False\<rparr>"

lemmas ex_defs = lychii_def lychii_regex_def my_bot_def my_bot_regex_def general_def
  lychii_user_def alice_def running_def said_def quiet_def failing_def broken_init_def
  login_payload_def greets_general_def

lemmas rx_defs = selfRecognizeRegex_def pattern_atom_def isSyntaxCharacter_def
  regexp_test_def regexp_exec_def replace_def trim_def canonicalize_def isLineTerminator_def
  isWhiteSpace_def

section \<open>Lemmas on the loops\<close>

lemma plugins_map_throw:
  "list_all (returns_on m) pre \<Longrightarrow> plugin_processMessage p m = Some e \<Longrightarrow>
   plugins_map (pre @ p # post) m = (calls (pre @ [p]) m, Some e)"
  by (induction pre) (simp_all add: calls_def returns_on_def)





lemma registerPlugin_registers:
  "registers q \<Longrightarrow>
   registerPlugin b q =
     \<lparr>after = b\<lparr>plugins := plugins b @ [q]\<rparr>, did = registration q, thrown = None\<rparr>"
  by (auto simp: registers_def init_returns_def registerPlugin_def registration_def Let_def
           split: option.splits)

lemma registerPlugin_init_throws:
  "plugin_new p = None \<Longrightarrow> plugin_init p = Some (Some e) \<Longrightarrow>
   registerPlugin b p =
     \<lparr>after = b\<lparr>plugins := plugins b @ [p]\<rparr>, did = registration p, thrown = Some e\<rparr>"
  by (simp add: registerPlugin_def registration_def Let_def)

lemma register_each_init_throws:
  "list_all registers pre \<Longrightarrow> plugin_new p = None \<Longrightarrow> plugin_init p = Some (Some e) \<Longrightarrow>
   register_each b (pre @ p # post) =
     \<lparr>after = b\<lparr>plugins := plugins b @ pre @ [p]\<rparr>,
      did = concat (map registration pre) @ registration p, thrown = Some e\<rparr>"
proof (induction pre arbitrary: b)
  case Nil
  then show ?case by (simp add: registerPlugin_init_throws)
next
  case (Cons q pre)
  then have q: "registers q" and pre: "list_all registers pre" by simp_all
  show ?case
    using Cons.IH [OF pre Cons.prems(2) Cons.prems(3), of "b\<lparr>plugins := plugins b @ [q]\<rparr>"]
    by (simp add: registerPlugin_registers [OF q])
qed




section \<open>Lemmas on trimming and matching\<close>

lemma trim_trimmed: "trimmed t \<Longrightarrow> trim t = t"
proof (cases t)
  case Nil
  then show ?thesis by (simp add: trim_def)
next
  case (Cons c cs)
  assume "trimmed t"
  with Cons have c: "\<not> isWhiteSpace c" and l: "\<not> isWhiteSpace (last t)"
    by (simp_all add: trimmed_def)
  from Cons c have d: "dropWhile isWhiteSpace t = t" by simp
  from Cons have "rev t \<noteq> []" by simp
  moreover have "hd (rev t) = last t" using Cons by (simp add: hd_rev)
  ultimately have "dropWhile isWhiteSpace (rev t) = rev t"
    using l by (simp add: dropWhile_eq_self_iff)
  with d show ?thesis by (simp add: trim_def)
qed

lemma replace_no_match: "\<not> regexp_test r (Some t) \<Longrightarrow> replace t r = t"
  by (simp add: regexp_test_def replace_def split: option.splits)

lemma pattern_atoms_plain: "plain_name n \<Longrightarrow> pattern_atoms n = Some (map Lit n)"
  by (induction n) (auto simp: plain_name_def pattern_atom_def isSyntaxCharacter_def)

lemma match_plain:
  "(match_atoms (map Lit n @ [Space]) t \<noteq> None) = begins_with_name n t"
proof (induction n arbitrary: t)
  case Nil
  show ?case by (cases t) (simp_all add: begins_with_name_def)
next
  case (Cons c n)
  show ?case
  proof (cases t)
    case Nil
    then show ?thesis by (simp add: begins_with_name_def)
  next
    case (Cons u us)
    with Cons.IH [of us] show ?thesis
      by (auto simp: begins_with_name_def)
  qed
qed

lemma exec_plain:
  "(regexp_exec (map Lit n @ [Space]) t \<noteq> None) = spec_mention_prefix n t"
proof (cases t)
  case Nil
  then show ?thesis
    using match_plain [of n "[]"] by (simp add: regexp_exec_def spec_mention_prefix_def)
next
  case (Cons u us)
  then show ?thesis
    using match_plain [of n t] match_plain [of n us]
    by (auto simp: regexp_exec_def spec_mention_prefix_def split: option.splits)
qed

text \<open>
  For a plain name the pattern and the specification's mention prefix agree: the filter
  decides a message that is neither direct nor the bot's own by the mention prefix, and
  the normalizer leaves a trimmed text without it alone.
\<close>

lemma test_plain_name:
  assumes "plain_name name" and "selfRecognizeRegex name = Some r"
  shows "regexp_test r (Some t) = spec_mention_prefix name t"
proof -
  from assms have r: "r = map Lit name @ [Space]"
    by (simp add: selfRecognizeRegex_def pattern_atoms_plain)
  show ?thesis
    using exec_plain [of name t] unfolding r
    by (cases "regexp_exec (map Lit name @ [Space]) t") (auto simp: regexp_test_def)
qed

lemma filter_plain_name:
  assumes "plain_name (self_name s)" and "selfRecognizeRegex (self_name s) = Some r"
    and "self b = Some s" and "\<not> isDM m" and "\<not> from_self s m" and "msg_text m = Some t"
  shows "isAcceptable b m r = Inr (spec_mention_prefix (self_name s) t)"
  using assms(3-6) test_plain_name [OF assms(1,2), of t]
  by (auto simp: isAcceptable_def from_self_def Let_def split: option.splits)

lemma normalizer_plain_name:
  assumes "plain_name name" and "selfRecognizeRegex name = Some r"
    and "msg_text m = Some t" and "trimmed t" and "\<not> spec_mention_prefix name t"
  shows "trimMessage m r = Inr m"
  using assms(3-5) test_plain_name [OF assms(1,2), of t]
  by (simp add: trimMessage_def trim_trimmed replace_no_match)

section \<open>Lemmas on the handlers\<close>

lemma find_default_no_match:
  "list_all (\<lambda>g. channel_name g \<noteq> n) gs \<Longrightarrow> find_default n gs acc = acc"
  by (induction gs arbitrary: acc) simp_all

text \<open>
  Whatever the payload, a first authentication none of whose groups has the configured
  name ends in an exception.
\<close>

lemma onAuthenticated_no_match_throws:
  assumes "defaultChannel b = None"
    and "list_all (\<lambda>g. channel_name g \<noteq> config_defaultChannel cfg) (identity_groups idn)"
  shows "thrown (onAuthenticated cfg b idn) \<noteq> None"
  using assms
  by (simp add: onAuthenticated_def Let_def find_default_no_match
           split: prod.splits option.splits)

text \<open>With the channel among the groups the handler builds the whole identity.\<close>

lemma onAuthenticated_example:
  "thrown (onAuthenticated greets_general constructor (login_payload [general])) = None \<and>
   after (onAuthenticated greets_general constructor (login_payload [general]))
     = running lychii [] \<and>
   did (onAuthenticated greets_general constructor (login_payload [general]))
     = [Debug (str ''login to team lab as lychii''), Debug (str ''default channel: general'')]"
  by (simp add: onAuthenticated_def constructor_def Let_def ex_defs str_def)

text \<open>After the failed authentication of claim C3 the greeting goes to no channel.\<close>

lemma onConnected_without_default_channel:
  "did (onConnected (after (onAuthenticated greets_general constructor
                              (login_payload [\<lparr>channel_name = str ''random''\<rparr>])))
          (Some lychii_user) (Some \<lparr>team_name = str ''lab''\<rparr>))
     = [Debug (str ''connected to team lab as lychii''),
        Send (str ''Hello! I'' @ [0x27] @ str ''m lychii'') None]"
  by (simp add: onConnected_def onAuthenticated_def constructor_def Let_def ex_defs str_def)

lemma effective_subtype_text:
  "effective_subtype (m\<lparr>msg_text := x\<rparr>) = effective_subtype m"
  by (simp add: effective_subtype_def)

lemma invoked_switch_log_only:
  "log_only (effective_subtype m) \<Longrightarrow> invoked (did (switch_subtype b m)) = []"
  by (auto simp: switch_subtype_def log_only_def Let_def split: option.splits)

lemma switch_forwards:
  "\<not> log_only (effective_subtype m) \<Longrightarrow> msg_channel m = Some c \<Longrightarrow>
   switch_subtype b m =
     \<lparr>after = m,
      did = Debug (str ''received from '' @ toString (sender_name m) @ str '' in channel ''
                   @ channel_name c @ str '': '' @ toString (msg_text m))
            # did (processMessage b m),
      thrown = thrown (processMessage b m)\<rparr>"
  by (auto simp: switch_subtype_def log_only_def Let_def processMessage_def split: prod.splits)

section \<open>Plugin failures\<close>

text \<open>
  Claim C1, as the code has it. \<open>processMessage\<close> has no handler around the plugin calls:
  when a plugin's \<^verbatim>\<open>processMessage\<close> throws and none before it did, the plugins up to
  and including that one have been called, in registration order and with the same
  message, no later plugin is called, nothing is logged after the call, and the exception
  leaves \<open>processMessage\<close>.
\<close>

theorem processMessage_stops_at_throwing_plugin:
  assumes "plugins b = pre @ p # post"
    and "list_all (returns_on m) pre"
    and "plugin_processMessage p m = Some e"
  shows "thrown (processMessage b m) = Some e \<and>
         did (processMessage b m) =
           Debug (str ''processing: '' @ toString (msg_text m)) # calls (pre @ [p]) m"
  using assms by (simp add: processMessage_def plugins_map_throw)

text \<open>Three plugins, the second of which throws: the third is not called.\<close>

theorem processMessage_stops_at_throwing_plugin_witness:
  "plugins (running lychii [quiet (str ''A''), failing (str ''B''), quiet (str ''C'')])
     = [quiet (str ''A'')] @ failing (str ''B'') # [quiet (str ''C'')] \<and>
   list_all (returns_on (said alice (Some (str ''hi'')) True None)) [quiet (str ''A'')] \<and>
   plugin_processMessage (failing (str ''B'')) (said alice (Some (str ''hi'')) True None)
     = Some (Raised (str ''boom'')) \<and>
   thrown (processMessage (running lychii [quiet (str ''A''), failing (str ''B''), quiet (str ''C'')])
             (said alice (Some (str ''hi'')) True None)) = Some (Raised (str ''boom'')) \<and>
   did (processMessage (running lychii [quiet (str ''A''), failing (str ''B''), quiet (str ''C'')])
          (said alice (Some (str ''hi'')) True None)) =
     [Debug (str ''processing: hi''),
      ProcessMessage (str ''A'') (said alice (Some (str ''hi'')) True None),
      ProcessMessage (str ''B'') (said alice (Some (str ''hi'')) True None)]"
  using processMessage_stops_at_throwing_plugin
          [of "running lychii [quiet (str ''A''), failing (str ''B''), quiet (str ''C'')]"
              "[quiet (str ''A'')]" "failing (str ''B'')" "[quiet (str ''C'')]"
              "said alice (Some (str ''hi'')) True None" "Raised (str ''boom'')"]
  by (simp add: running_def said_def returns_on_def quiet_def failing_def calls_def str_def)

text \<open>
  Claim C1 as stated fails: with plugins A and B registered in this order and A throwing
  on a direct message, the handler calls A only, logs no failure and ends in A's
  exception.
\<close>

theorem onIncomingMessage_later_plugin_not_invoked:
  "onIncomingMessage (running lychii [failing (str ''A''), quiet (str ''B'')])
     (said alice (Some (str ''hi'')) True None)
   = Some \<lparr>after = said alice (Some (str ''hi'')) True None,
           did = [Debug (str ''received from alice in channel general: hi''),
                  Debug (str ''processing: hi''),
                  ProcessMessage (str ''A'') (said alice (Some (str ''hi'')) True None)],
           thrown = Some (Raised (str ''boom''))\<rparr>"
  by (simp add: onIncomingMessage_def isAcceptable_def trimMessage_def switch_subtype_def
        processMessage_def effective_subtype_def sender_name_def Let_def
        rx_defs ex_defs str_def)

text \<open>
  Claim C2, as the code has it. Neither \<open>registerPlugin\<close> nor \<open>loadPlugins\<close> has a handler
  around \<^verbatim>\<open>init\<close>: when a plugin's \<^verbatim>\<open>init\<close> throws and the plugins before it registered,
  that plugin is already in the registry, the exception leaves \<open>loadPlugins\<close>, no line
  reports it, and no later plugin is constructed or registered.
\<close>

theorem loadPlugins_stops_at_throwing_init:
  assumes "list_all registers pre"
    and "plugin_new p = None"
    and "plugin_init p = Some (Some e)"
  shows "thrown (loadPlugins b (Some (pre @ p # post))) = Some e \<and>
         plugins (after (loadPlugins b (Some (pre @ p # post)))) = plugins b @ pre @ [p] \<and>
         did (loadPlugins b (Some (pre @ p # post))) =
           concat (map registration pre) @ registration p"
  using assms by (simp add: loadPlugins_def register_each_init_throws)

text \<open>Three plugin classes, the second with a throwing \<^verbatim>\<open>init\<close>: the third is never built.\<close>

theorem loadPlugins_stops_at_throwing_init_witness:
  "list_all registers [quiet (str ''A'')] \<and>
   plugin_new (broken_init (str ''B'')) = None \<and>
   plugin_init (broken_init (str ''B'')) = Some (Some (Raised (str ''boom''))) \<and>
   thrown (loadPlugins constructor
             (Some ([quiet (str ''A'')] @ broken_init (str ''B'') # [quiet (str ''C'')])))
     = Some (Raised (str ''boom'')) \<and>
   map plugin_name (plugins (after (loadPlugins constructor
      (Some ([quiet (str ''A'')] @ broken_init (str ''B'') # [quiet (str ''C'')])))))
     = [str ''A'', str ''B''] \<and>
   did (loadPlugins constructor
          (Some ([quiet (str ''A'')] @ broken_init (str ''B'') # [quiet (str ''C'')])))
     = [Debug (str ''register plugin: A''), New (str ''A''), Init (str ''A''),
        Debug (str ''register plugin: B''), New (str ''B''), Init (str ''B'')]"
  using loadPlugins_stops_at_throwing_init
          [of "[quiet (str ''A'')]" "broken_init (str ''B'')" "Raised (str ''boom'')"
              constructor "[quiet (str ''C'')]"]
  by (simp add: registers_def init_returns_def registration_def constructor_def
                quiet_def broken_init_def str_def)

text \<open>
  Claim C2 as stated fails: with the classes A and B given in this order and A's \<^verbatim>\<open>init\<close>
  throwing, B is neither constructed nor registered and the exception is not caught.
\<close>

theorem loadPlugins_later_plugin_not_registered:
  "plugin_init (broken_init (str ''A'')) = Some (Some (Raised (str ''boom''))) \<and>
   thrown (loadPlugins constructor (Some [broken_init (str ''A''), quiet (str ''B'')]))
     = Some (Raised (str ''boom'')) \<and>
   map plugin_name
     (plugins (after (loadPlugins constructor
                        (Some [broken_init (str ''A''), quiet (str ''B'')]))))
     = [str ''A''] \<and>
   did (loadPlugins constructor (Some [broken_init (str ''A''), quiet (str ''B'')]))
     = [Debug (str ''register plugin: A''), New (str ''A''), Init (str ''A'')]"
  by (simp add: loadPlugins_def registerPlugin_def constructor_def Let_def ex_defs str_def)

section \<open>Authentication without the default channel\<close>

text \<open>
  Claim C3 at a payload whose only group is "random" while the configuration names
  "general": the loop finds no channel, \<^verbatim>\<open>this.defaultChannel\<close> stays null, and the last
  log line of \<open>onAuthenticated\<close> reads its name, so the handler ends in a TypeError after
  the login line. No configuration error is reported.
\<close>

theorem onAuthenticated_without_default_channel_throws:
  "find_default (config_defaultChannel greets_general) [\<lparr>channel_name = str ''random''\<rparr>] None
     = None \<and>
   thrown (onAuthenticated greets_general constructor
             (login_payload [\<lparr>channel_name = str ''random''\<rparr>])) = Some TypeError \<and>
   defaultChannel (after (onAuthenticated greets_general constructor
                            (login_payload [\<lparr>channel_name = str ''random''\<rparr>]))) = None \<and>
   did (onAuthenticated greets_general constructor
          (login_payload [\<lparr>channel_name = str ''random''\<rparr>]))
     = [Debug (str ''login to team lab as lychii'')]"
  by (simp add: onAuthenticated_def constructor_def Let_def ex_defs str_def)

section \<open>The acceptance filter\<close>

text \<open>
  Claim C4. A message whose user has the bot's own id is rejected, whatever its text and
  whether it is a direct message or not.
\<close>

theorem isAcceptable_rejects_own_user:
  assumes "self b = Some s" and "msg_user m = Some u" and "user_id u = self_id s"
  shows "isAcceptable b m r = Inr False"
  using assms by (simp add: isAcceptable_def Let_def)

text \<open>A direct message of the bot's own user that even mentions the bot.\<close>

theorem isAcceptable_rejects_own_user_witness:
  "self (running lychii []) = Some lychii \<and>
   msg_user (said lychii_user (Some (str ''lychii hello'')) True None) = Some lychii_user \<and>
   user_id lychii_user = self_id lychii \<and>
   isAcceptable (running lychii []) (said lychii_user (Some (str ''lychii hello'')) True None)
     lychii_regex = Inr False"
  using isAcceptable_rejects_own_user
          [of "running lychii []" lychii "said lychii_user (Some (str ''lychii hello'')) True None"
              lychii_user lychii_regex]
  by (simp add: running_def said_def lychii_def lychii_user_def)

text \<open>
  Claim C5, as the code has it. The test for the bot's own messages comes first: a direct
  message that is not the bot's own is accepted, whatever its text, the empty text
  included.
\<close>

theorem isAcceptable_accepts_foreign_direct_message:
  assumes "isDM m" and "self b = Some s" and "\<not> from_self s m"
  shows "isAcceptable b m r = Inr True"
  using assms by (auto simp: isAcceptable_def from_self_def Let_def split: option.splits)

text \<open>A direct message of another user with the empty text.\<close>

theorem isAcceptable_accepts_foreign_direct_message_witness:
  "isDM (said alice (Some []) True None) \<and> self (running lychii []) = Some lychii \<and>
   \<not> from_self lychii (said alice (Some []) True None) \<and>
   isAcceptable (running lychii []) (said alice (Some []) True None) lychii_regex = Inr True"
  using isAcceptable_accepts_foreign_direct_message
          [of "said alice (Some []) True None" "running lychii []" lychii lychii_regex]
  by (simp add: running_def said_def lychii_def alice_def from_self_def str_def)

text \<open>Claim C5 as stated fails: a direct message of the bot's own user is rejected.\<close>

theorem isAcceptable_rejects_own_direct_message:
  "isDM (said lychii_user (Some (str ''hello'')) True None) \<and>
   isAcceptable (running lychii []) (said lychii_user (Some (str ''hello'')) True None)
     lychii_regex = Inr False"
  by (simp add: isAcceptable_def Let_def running_def said_def lychii_def lychii_user_def)

text \<open>
  Claim C6 at the bot name "my.bot" and the text "myxbot hi" of another user in a
  channel: the text does not begin with the name, with or without "@", yet the dot of
  the name is a wildcard in the pattern and the filter accepts the message.
  For a plain name the filter does follow the claim (\<open>filter_plain_name\<close>).
\<close>

theorem isAcceptable_dotted_name_accepts_other_text:
  "selfRecognizeRegex (self_name my_bot) = Some my_bot_regex \<and>
   \<not> isDM (said alice (Some (str ''myxbot hi'')) False None) \<and>
   \<not> from_self my_bot (said alice (Some (str ''myxbot hi'')) False None) \<and>
   \<not> spec_mention_prefix (self_name my_bot) (str ''myxbot hi'') \<and>
   isAcceptable (running my_bot []) (said alice (Some (str ''myxbot hi'')) False None)
     my_bot_regex = Inr True"
  by (simp add: selfRecognizeRegex_def pattern_atom_def isSyntaxCharacter_def
        isAcceptable_def regexp_test_def regexp_exec_def canonicalize_def isLineTerminator_def
        isWhiteSpace_def spec_mention_prefix_def begins_with_name_def from_self_def Let_def
        ex_defs str_def)

section \<open>Classification and dispatch\<close>

text \<open>
  Claim C7. Whenever the handler runs on a message whose subtype is a join, a leave or a
  topic change, no plugin is called; an accepted message with a text and a channel and
  any other subtype (none and the empty one included) is logged and given, trimmed, to
  \<open>processMessage\<close>.
\<close>

theorem onIncomingMessage_forwards_default_branch_only:
  assumes "onIncomingMessage b m = Some out"
  shows "(log_only (effective_subtype m) \<longrightarrow> invoked (did out) = []) \<and>
         (\<not> log_only (effective_subtype m) \<and> self b = Some s
            \<and> selfRecognizeRegex (self_name s) = Some r \<and> isAcceptable b m r = Inr True
            \<and> msg_text m = Some t \<and> msg_channel m = Some c \<longrightarrow>
          did out =
            Debug (str ''received from '' @ toString (sender_name m) @ str '' in channel ''
                   @ channel_name c @ str '': '' @ replace (trim t) r)
            # did (processMessage b (m\<lparr>msg_text := Some (replace (trim t) r)\<rparr>))
          \<and> thrown out = thrown (processMessage b (m\<lparr>msg_text := Some (replace (trim t) r)\<rparr>)))"
proof -
  have a: "invoked (did out) = []" if lo: "log_only (effective_subtype m)"
    using assms lo
    by (auto simp: onIncomingMessage_def trimMessage_def invoked_switch_log_only
                   effective_subtype_text
             split: option.splits sum.splits if_splits)
  have b: "did out =
            Debug (str ''received from '' @ toString (sender_name m) @ str '' in channel ''
                   @ channel_name c @ str '': '' @ replace (trim t) r)
            # did (processMessage b (m\<lparr>msg_text := Some (replace (trim t) r)\<rparr>))
          \<and> thrown out = thrown (processMessage b (m\<lparr>msg_text := Some (replace (trim t) r)\<rparr>))"
    if h: "\<not> log_only (effective_subtype m) \<and> self b = Some s
            \<and> selfRecognizeRegex (self_name s) = Some r \<and> isAcceptable b m r = Inr True
            \<and> msg_text m = Some t \<and> msg_channel m = Some c"
  proof -
    let ?m' = "m\<lparr>msg_text := Some (replace (trim t) r)\<rparr>"
    from h have sw: "switch_subtype b ?m' =
       \<lparr>after = ?m',
        did = Debug (str ''received from '' @ toString (sender_name ?m') @ str '' in channel ''
                     @ channel_name c @ str '': '' @ toString (msg_text ?m'))
              # did (processMessage b ?m'),
        thrown = thrown (processMessage b ?m')\<rparr>"
      by (intro switch_forwards) (simp_all add: effective_subtype_text)
    from h assms have out: "out = switch_subtype b ?m'"
      by (simp add: onIncomingMessage_def trimMessage_def)
    have sn: "sender_name ?m' = sender_name m"
      by (simp add: sender_name_def split: option.splits)
    show ?thesis unfolding out sw using sn by simp
  qed
  from a b show ?thesis by blast
qed

text \<open>
  A direct message with subtype channel_join is only logged; a channel message
  "@Lychii hello there  " reaches plugin A as "hello there".
\<close>

theorem onIncomingMessage_forwards_default_branch_only_witness:
  "onIncomingMessage (running lychii [quiet (str ''A'')])
     (said alice (Some (str ''joined'')) True (Some (str ''channel_join'')))
     = Some \<lparr>after = said alice (Some (str ''joined'')) True (Some (str ''channel_join'')),
             did = [Debug (str ''alice has joined general'')], thrown = None\<rparr> \<and>
   log_only (effective_subtype (said alice (Some (str ''joined'')) True (Some (str ''channel_join'')))) \<and>
   invoked [Debug (str ''alice has joined general'')] = [] \<and>
   onIncomingMessage (running lychii [quiet (str ''A'')])
     (said alice (Some (str ''@Lychii hello there  '')) False None)
     = Some \<lparr>after = said alice (Some (str ''hello there'')) False None,
             did = [Debug (str ''received from alice in channel general: hello there''),
                    Debug (str ''processing: hello there''),
                    ProcessMessage (str ''A'') (said alice (Some (str ''hello there'')) False None)],
             thrown = None\<rparr> \<and>
   \<not> log_only (effective_subtype (said alice (Some (str ''@Lychii hello there  '')) False None)) \<and>
   self (running lychii [quiet (str ''A'')]) = Some lychii \<and>
   selfRecognizeRegex (self_name lychii) = Some lychii_regex \<and>
   isAcceptable (running lychii [quiet (str ''A'')])
     (said alice (Some (str ''@Lychii hello there  '')) False None) lychii_regex = Inr True \<and>
   msg_text (said alice (Some (str ''@Lychii hello there  '')) False None)
     = Some (str ''@Lychii hello there  '') \<and>
   msg_channel (said alice (Some (str ''@Lychii hello there  '')) False None) = Some general \<and>
   replace (trim (str ''@Lychii hello there  '')) lychii_regex = str ''hello there''"
  using onIncomingMessage_forwards_default_branch_only
          [of "running lychii [quiet (str ''A'')]"
              "said alice (Some (str ''joined'')) True (Some (str ''channel_join''))"
              "\<lparr>after = said alice (Some (str ''joined'')) True (Some (str ''channel_join'')),
                did = [Debug (str ''alice has joined general'')], thrown = None\<rparr>"]
        onIncomingMessage_forwards_default_branch_only
          [of "running lychii [quiet (str ''A'')]"
              "said alice (Some (str ''@Lychii hello there  '')) False None"
              "\<lparr>after = said alice (Some (str ''hello there'')) False None,
                did = [Debug (str ''received from alice in channel general: hello there''),
                   Debug (str ''processing: hello there''),
                   ProcessMessage (str ''A'') (said alice (Some (str ''hello there'')) False None)],
                thrown = None\<rparr>"
              lychii lychii_regex "str ''@Lychii hello there  ''" general]
  by (simp add: onIncomingMessage_def isAcceptable_def trimMessage_def switch_subtype_def
        processMessage_def effective_subtype_def sender_name_def log_only_def Let_def
        rx_defs ex_defs str_def)



section \<open>The normalizer\<close>

text \<open>
  Claim C9 at the bot name "my.bot" and the text "myxbot hi": the text is trimmed and does
  not begin with the name, with or without "@", yet the dot of the name is a wildcard in
  the pattern and \<open>trimMessage\<close> strips "myxbot " from it, leaving "hi". For a plain name
  the normalizer does follow the claim (\<open>normalizer_plain_name\<close>).
\<close>

theorem trimMessage_dotted_name_strips_other_text:
  "selfRecognizeRegex (self_name my_bot) = Some my_bot_regex \<and>
   trimmed (str ''myxbot hi'') \<and>
   \<not> spec_mention_prefix (self_name my_bot) (str ''myxbot hi'') \<and>
   trimMessage (said alice (Some (str ''myxbot hi'')) False None) my_bot_regex
     = Inr (said alice (Some (str ''hi'')) False None)"
  by (simp add: trimMessage_def trimmed_def spec_mention_prefix_def begins_with_name_def
        rx_defs ex_defs str_def)

text \<open>
  Claim C10. An accepted message without a text makes \<open>trimMessage\<close> throw a TypeError,
  and the handler ends in it before anything is logged or dispatched; a direct message
  without a text is such a message.
\<close>

theorem onIncomingMessage_throws_on_absent_text:
  assumes "self b = Some s" and "selfRecognizeRegex (self_name s) = Some r"
    and "msg_text m = None" and "isAcceptable b m r = Inr True"
  shows "trimMessage m r = Inl TypeError \<and>
         onIncomingMessage b m = Some \<lparr>after = m, did = [], thrown = Some TypeError\<rparr>"
  using assms by (simp add: trimMessage_def onIncomingMessage_def)

text \<open>A direct message of another user that carries no text.\<close>

theorem onIncomingMessage_throws_on_absent_text_witness:
  "self (running lychii []) = Some lychii \<and>
   selfRecognizeRegex (self_name lychii) = Some lychii_regex \<and>
   msg_text (said alice None True None) = None \<and>
   isAcceptable (running lychii []) (said alice None True None) lychii_regex = Inr True \<and>
   trimMessage (said alice None True None) lychii_regex = Inl TypeError \<and>
   onIncomingMessage (running lychii []) (said alice None True None)
     = Some \<lparr>after = said alice None True None, did = [], thrown = Some TypeError\<rparr>"
  using onIncomingMessage_throws_on_absent_text
          [of "running lychii []" lychii lychii_regex "said alice None True None"]
  by (simp add: isAcceptable_def Let_def rx_defs ex_defs str_def)

end
